theory Spec2Isabelle
  imports Complex_Main
begin

section \<open>Embedding of pkg/collector/python/init.go\<close>

text \<open>
  The file boots one embedded Python runtime through the cgo library
  \<^verbatim>\<open>datadog_agent_six\<close>, publishes three package variables and keeps the handle
  in the package variable \<^verbatim>\<open>six\<close>.  The Go code is a sequence of foreign calls and
  assignments to package variables, so the model is explicit state passing: the package
  variables are the fields of a record, and every foreign call with an effect is
  appended to a log kept in the same record.  What the code reads from outside the file
  (configuration, link-time constants, the operating system, the answers of the
  runtime) is a second record that the functions take as a parameter.
\<close>

subsection \<open>Values crossing the boundary\<close>

text \<open>A non-nil \<^verbatim>\<open>*C.six_t\<close>; the nil pointer is \<open>None\<close>.\<close>

type_synonym six_ptr = nat

text \<open>
  The error value of \<^verbatim>\<open>os.Stat\<close>, as far as \<^verbatim>\<open>os.IsNotExist\<close> tells errors
  apart; \<open>None\<close> is the nil error.
\<close>

datatype os_error = ErrNotExist | ErrPermission | ErrOther string

fun os_IsNotExist :: "os_error option \<Rightarrow> bool" where
  "os_IsNotExist None = False"
| "os_IsNotExist (Some ErrNotExist) = True"
| "os_IsNotExist (Some ErrPermission) = False"
| "os_IsNotExist (Some (ErrOther msg)) = False"

text \<open>The \<^verbatim>\<open>metrics.Serie\<close> literal of \<^verbatim>\<open>sendTelemetry\<close>, with the fields it sets.\<close>

datatype APIMetricType = APIGaugeType | APIRateType | APICountType

record Point =
  Value :: real

record Serie =
  Name :: string
  Points :: "Point list"
  Tags :: "string list"
  MType :: APIMetricType

text \<open>
  The calls with an effect outside the package variables, in the order the code makes
  them.  The read-only queries \<^verbatim>\<open>is_initialized\<close>, \<^verbatim>\<open>get_error\<close> and
  \<^verbatim>\<open>get_py_version\<close> are not logged.
\<close>

datatype event =
    Make2 string
  | Make3 string
  | Stat string
  | AddPythonPath six_ptr string
  | Init six_ptr
  | CacheSet string string
  | AddRecurrentSeries Serie
  | InitCgoFree six_ptr
  | InitDatadogAgentModule six_ptr
  | InitAggregatorModule six_ptr
  | InitUtilModule six_ptr
  | InitTaggerModule six_ptr
  | InitContainerFilter
  | InitContainersModule six_ptr
  | InitkubeutilModule six_ptr
  | DestroyCall six_ptr

subsection \<open>Package variables and the outside world\<close>

record state =
  six :: "six_ptr option"
  PythonVersion :: string
  PythonHome :: string
  PythonPath :: string
  trace :: "event list"

text \<open>The package variables as the \<^verbatim>\<open>var\<close> block initialises them.\<close>

definition init_state :: state where
  "init_state = \<lparr>six = None, PythonVersion = [], PythonHome = [], PythonPath = [], trace = []\<rparr>"

text \<open>
  Everything \<^verbatim>\<open>Initialize\<close> reads and does not own.  \<open>python_version\<close> is
  \<^verbatim>\<open>config.Datadog.GetInt("python_version")\<close>; \<open>pythonHome2\<close> and \<open>pythonHome3\<close> are
  the link-time constants (never assigned in the file); \<open>make2\<close> and \<open>make3\<close> are the
  answers of the C constructors; \<open>executable_Folder\<close> is the first result of
  \<^verbatim>\<open>executable.Folder()\<close>, whose error the code drops; \<open>filepath_Join\<close> and
  \<open>os_Stat\<close> are the standard library on the running platform; \<open>is_initialized\<close>,
  \<open>get_error\<close> and \<open>get_py_version\<close> are the runtime's answers after \<^verbatim>\<open>C.init\<close>
  (the strings already converted by \<^verbatim>\<open>C.GoString\<close>, a nil version pointer being
  \<open>None\<close>); \<open>BuildAgentKey\<close> is \<^verbatim>\<open>cache.BuildAgentKey\<close>; \<open>version_New\<close> is the
  result of \<^verbatim>\<open>version.New(version.AgentVersion, version.Commit)\<close>, \<open>None\<close> when it
  returns an error and otherwise the Major, Minor and Patch fields.
\<close>

record env =
  python_version :: int
  pythonHome2 :: string
  pythonHome3 :: string
  GOOS :: string
  make2 :: "string \<Rightarrow> six_ptr option"
  make3 :: "string \<Rightarrow> six_ptr option"
  executable_Folder :: string
  filepath_Join :: "string list \<Rightarrow> string"
  os_Stat :: "string \<Rightarrow> os_error option"
  is_initialized :: "six_ptr \<Rightarrow> int"
  get_error :: "six_ptr \<Rightarrow> string"
  get_py_version :: "six_ptr \<Rightarrow> string option"
  BuildAgentKey :: "string list \<Rightarrow> string"
  version_New :: "(int \<times> int \<times> int) option"

subsection \<open>Library functions the code calls\<close>

text \<open>\<^verbatim>\<open>%d\<close> of \<^verbatim>\<open>fmt.Sprintf\<close>: decimal digits, a minus sign for negative values.\<close>

definition digit_char :: "nat \<Rightarrow> char" where
  "digit_char d = ''0123456789'' ! d"

fun show_nat :: "nat \<Rightarrow> string" where
  "show_nat n = (if n < 10 then [digit_char n] else show_nat (n div 10) @ [digit_char (n mod 10)])"

declare show_nat.simps [simp del]

definition show_int :: "int \<Rightarrow> string" where
  "show_int i = (if i < 0 then CHR ''-'' # show_nat (nat (- i)) else show_nat (nat i))"

text \<open>
  \<^verbatim>\<open>strings.Replace(s, old, new, -1)\<close>: every non-overlapping occurrence of \<open>old\<close>,
  found from the left, is replaced.  For an empty \<open>old\<close> Go inserts \<open>new\<close> before every
  character and at the end; characters are bytes here, which agrees with Go on ASCII.
\<close>

fun replace_from :: "string \<Rightarrow> string \<Rightarrow> string \<Rightarrow> string" where
  "replace_from old new [] = []"
| "replace_from old new (c # cs) =
     (if take (length old) (c # cs) = old
      then new @ replace_from old new (drop (length old - 1) cs)
      else c # replace_from old new cs)"

definition strings_Replace_all :: "string \<Rightarrow> string \<Rightarrow> string \<Rightarrow> string" where
  "strings_Replace_all s old new =
     (if old = [] then new @ concat (map (\<lambda>c. c # new) s) else replace_from old new s)"

subsection \<open>The functions of the file\<close>

definition emit :: "event \<Rightarrow> state \<Rightarrow> state" where
  "emit ev s = s\<lparr>trace := trace s @ [ev]\<rparr>"

text \<open>\<^verbatim>\<open>sendTelemetry\<close>, lines 150-167.\<close>

definition sendTelemetry :: "env \<Rightarrow> int \<Rightarrow> state \<Rightarrow> state" where
  "sendTelemetry e pythonVersion s =
     (let tags = [''python_version:'' @ show_int pythonVersion];
          tags = (case version_New e of
                    Some (major, minor, patch) \<Rightarrow>
                      tags @ [''agent_version_major:'' @ show_int major,
                              ''agent_version_minor:'' @ show_int minor,
                              ''agent_version_patch:'' @ show_int patch]
                  | None \<Rightarrow> tags)
      in emit (AddRecurrentSeries
                 \<lparr>Name = ''datadog.agent.python.version'',
                  Points = [\<lparr>Value = 1\<rparr>],
                  Tags = tags,
                  MType = APIGaugeType\<rparr>) s)"

text \<open>Lines 186-192: the override of the published home path on Windows.\<close>

definition override_home :: "env \<Rightarrow> state \<Rightarrow> state" where
  "override_home e s =
     (if GOOS e = ''windows'' then
        (let here = executable_Folder e;
             marker = filepath_Join e [PythonHome s, ''lib'', ''python2.7''];
             s' = emit (Stat marker) s
         in if os_IsNotExist (os_Stat e marker) then s'\<lparr>PythonHome := here\<rparr> else s')
      else s)"

text \<open>Lines 194-197: the loop over the variadic argument.\<close>

fun add_python_paths :: "six_ptr \<Rightarrow> string list \<Rightarrow> state \<Rightarrow> state" where
  "add_python_paths h [] s = s"
| "add_python_paths h (p # ps) s = add_python_paths h ps (emit (AddPythonPath h p) s)"

text \<open>
  Lines 206-213: the version string is stored and cached when the pointer is not nil.
  The third argument of \<^verbatim>\<open>cache.Cache.Set\<close> is the constant
  \<^verbatim>\<open>cache.NoExpiration\<close> and is left out of the logged call.
\<close>

definition store_version :: "env \<Rightarrow> six_ptr \<Rightarrow> state \<Rightarrow> state" where
  "store_version e h s =
     (case get_py_version e h of
        None \<Rightarrow> s
      | Some res \<Rightarrow>
          (let s' = s\<lparr>PythonVersion := strings_Replace_all res [CHR 0x0A] []\<rparr>;
               key = BuildAgentKey e [''pythonVersion'']
           in emit (CacheSet key (PythonVersion s')) s'))"

text \<open>Lines 220-227: the callback tables, in the order of the source.\<close>

definition register_modules :: "six_ptr \<Rightarrow> state \<Rightarrow> state" where
  "register_modules h s =
     (let s = emit (InitCgoFree h) s;
          s = emit (InitDatadogAgentModule h) s;
          s = emit (InitAggregatorModule h) s;
          s = emit (InitUtilModule h) s;
          s = emit (InitTaggerModule h) s;
          s = emit InitContainerFilter s;
          s = emit (InitContainersModule h) s;
          s = emit (InitkubeutilModule h) s
      in s)"

text \<open>
  Lines 182-229, what \<^verbatim>\<open>Initialize\<close> does once one of the two constructors has been
  called.  The result is the returned \<^verbatim>\<open>error\<close> (its message; \<open>None\<close> is nil) and the
  package variables afterwards.
\<close>

definition Initialize_created :: "env \<Rightarrow> int \<Rightarrow> string list \<Rightarrow> state \<Rightarrow> string option \<times> state" where
  "Initialize_created e pythonVersion paths s =
     (case six s of
        None \<Rightarrow> (Some (''could not init six lib for python version '' @ show_int pythonVersion), s)
      | Some h \<Rightarrow>
          (let s = override_home e s;
               s = add_python_paths h paths s;
               s = emit (Init h) s
           in if is_initialized e h = 0 then (Some (get_error e h), s)
              else (let s = store_version e h s;
                        s = sendTelemetry e pythonVersion s;
                        s = register_modules h s
                    in (None, s))))"

text \<open>\<^verbatim>\<open>Initialize\<close>, lines 169-230.\<close>

definition Initialize :: "env \<Rightarrow> string list \<Rightarrow> state \<Rightarrow> string option \<times> state" where
  "Initialize e paths s =
     (let pythonVersion = python_version e in
      if pythonVersion = 2 then
        Initialize_created e pythonVersion paths
          ((emit (Make2 (pythonHome2 e)) s)\<lparr>six := make2 e (pythonHome2 e), PythonHome := pythonHome2 e\<rparr>)
      else if pythonVersion = 3 then
        Initialize_created e pythonVersion paths
          ((emit (Make3 (pythonHome3 e)) s)\<lparr>six := make3 e (pythonHome3 e), PythonHome := pythonHome3 e\<rparr>)
      else (Some (''unknown requested version of python: '' @ show_int pythonVersion), s))"

text \<open>\<^verbatim>\<open>Destroy\<close>, lines 233-237.\<close>

definition Destroy :: "state \<Rightarrow> state" where
  "Destroy s = (case six s of None \<Rightarrow> s | Some h \<Rightarrow> emit (DestroyCall h) s)"

text \<open>\<^verbatim>\<open>GetSix\<close>, lines 241-243.\<close>

definition GetSix :: "state \<Rightarrow> six_ptr option" where
  "GetSix s = six s"

subsection \<open>Reading the log\<close>

text \<open>The calls one run appends to the log: what the log holds after it and not before.\<close>

definition new_events :: "state \<Rightarrow> state \<Rightarrow> event list" where
  "new_events s s' = drop (length (trace s)) (trace s')"

text \<open>
  The configured version is 2 or 3 and the matching constructor returns the non-nil
  pointer \<open>h\<close>: the runs of \<^verbatim>\<open>Initialize\<close> that get past line 184.
\<close>

definition creates :: "env \<Rightarrow> six_ptr \<Rightarrow> bool" where
  "creates e h \<longleftrightarrow>
     (python_version e = 2 \<and> make2 e (pythonHome2 e) = Some h) \<or>
     (python_version e = 3 \<and> make3 e (pythonHome3 e) = Some h)"

text \<open>The link-time home path of the branch lines 172-177 take.\<close>

definition compiled_home :: "env \<Rightarrow> string" where
  "compiled_home e = (if python_version e = 2 then pythonHome2 e else pythonHome3 e)"

text \<open>Kinds of calls in the log.\<close>

fun is_make :: "event \<Rightarrow> bool" where
  "is_make (Make2 home) = True"
| "is_make (Make3 home) = True"
| "is_make ev = False"

fun is_stat :: "event \<Rightarrow> bool" where
  "is_stat (Stat p) = True"
| "is_stat ev = False"

fun is_series :: "event \<Rightarrow> bool" where
  "is_series (AddRecurrentSeries sr) = True"
| "is_series ev = False"

fun is_cache_set :: "event \<Rightarrow> bool" where
  "is_cache_set (CacheSet k v) = True"
| "is_cache_set ev = False"

text \<open>
  The handle a call registers callbacks into: the seven C helpers of the preamble that
  call the \<^verbatim>\<open>set_*_cb\<close> functions.
\<close>

fun registered_handle :: "event \<Rightarrow> six_ptr option" where
  "registered_handle (InitCgoFree h) = Some h"
| "registered_handle (InitDatadogAgentModule h) = Some h"
| "registered_handle (InitAggregatorModule h) = Some h"
| "registered_handle (InitUtilModule h) = Some h"
| "registered_handle (InitTaggerModule h) = Some h"
| "registered_handle (InitContainersModule h) = Some h"
| "registered_handle (InitkubeutilModule h) = Some h"
| "registered_handle ev = None"

text \<open>
  \<open>preceded Q P evs\<close>: every call of kind \<open>P\<close> in \<open>evs\<close> has a call of kind \<open>Q\<close>
  strictly before it.
\<close>

fun preceded :: "(event \<Rightarrow> bool) \<Rightarrow> (event \<Rightarrow> bool) \<Rightarrow> event list \<Rightarrow> bool" where
  "preceded Q P [] = True"
| "preceded Q P (x # xs) = (\<not> P x \<and> (Q x \<or> preceded Q P xs))"

subsection \<open>Concrete runs\<close>

text \<open>
  Environments to run the model on.  \<open>demo_env\<close> is a Linux host configured for
  Python 3 whose runtime boots and reports \<^verbatim>\<open>"3.8.10\n"\<close>; the others differ from it
  in the fields their names say.
\<close>

definition join_slash :: "string list \<Rightarrow> string" where
  "join_slash ps = foldr (\<lambda>p acc. if acc = [] then p else p @ ''/'' @ acc) ps []"

definition demo_env :: env where
  "demo_env =
     \<lparr>python_version = 3, pythonHome2 = ''/opt/py2'', pythonHome3 = ''/opt/py3'',
      GOOS = ''linux'', make2 = (\<lambda>home. Some 1), make3 = (\<lambda>home. Some 1),
      executable_Folder = ''/agent/bin'', filepath_Join = join_slash,
      os_Stat = (\<lambda>p. Some ErrNotExist), is_initialized = (\<lambda>h. 1),
      get_error = (\<lambda>h. ''boot failed''),
      get_py_version = (\<lambda>h. Some (''3.8.10'' @ [CHR 0x0A])),
      BuildAgentKey = (\<lambda>ks. join_slash (''agent'' # ks)), version_New = None\<rparr>"

definition win_env :: env where
  "win_env = demo_env\<lparr>python_version := 2, GOOS := ''windows''\<rparr>"

definition win3_env :: env where
  "win3_env =
     demo_env\<lparr>GOOS := ''windows'',
       os_Stat := (\<lambda>p. if p = ''/opt/py3/lib/python2.7'' then Some ErrNotExist else None)\<rparr>"

definition win_denied_env :: env where
  "win_denied_env = win_env\<lparr>os_Stat := (\<lambda>p. Some ErrPermission)\<rparr>"

definition boot_fail_env :: env where
  "boot_fail_env = demo_env\<lparr>is_initialized := (\<lambda>h. 0)\<rparr>"

section \<open>Properties\<close>

subsection \<open>The steps of Initialize\<close>

lemma emit_simps [simp]:
  "six (emit ev s) = six s"
  "PythonVersion (emit ev s) = PythonVersion s"
  "PythonHome (emit ev s) = PythonHome s"
  "PythonPath (emit ev s) = PythonPath s"
  "trace (emit ev s) = trace s @ [ev]"
  by (simp_all add: emit_def)

lemma add_python_paths_eq:
  "add_python_paths h ps s = s\<lparr>trace := trace s @ map (AddPythonPath h) ps\<rparr>"
  by (induction ps arbitrary: s) (simp_all add: emit_def)

lemma replace_from_single: "replace_from [c] [] s = filter (\<lambda>x. x \<noteq> c) s"
  by (induction s) auto

lemma strings_Replace_all_single:
  "strings_Replace_all s [c] [] = filter (\<lambda>x. x \<noteq> c) s"
  by (simp add: strings_Replace_all_def replace_from_single)

lemma override_home_fields [simp]:
  "six (override_home e s) = six s"
  "PythonVersion (override_home e s) = PythonVersion s"
  "PythonPath (override_home e s) = PythonPath s"
  by (simp_all add: override_home_def Let_def)

lemma override_home_PythonHome:
  "PythonHome (override_home e s) =
     (if GOOS e = ''windows'' \<and>
         os_IsNotExist (os_Stat e (filepath_Join e [PythonHome s, ''lib'', ''python2.7'']))
      then executable_Folder e else PythonHome s)"
  by (simp add: override_home_def Let_def)

lemma override_home_trace:
  "trace (override_home e s) =
     trace s @ (if GOOS e = ''windows''
                then [Stat (filepath_Join e [PythonHome s, ''lib'', ''python2.7''])] else [])"
  by (simp add: override_home_def Let_def)

lemma add_python_paths_fields [simp]:
  "six (add_python_paths h ps s) = six s"
  "PythonVersion (add_python_paths h ps s) = PythonVersion s"
  "PythonHome (add_python_paths h ps s) = PythonHome s"
  "PythonPath (add_python_paths h ps s) = PythonPath s"
  "trace (add_python_paths h ps s) = trace s @ map (AddPythonPath h) ps"
  by (simp_all add: add_python_paths_eq)

lemma store_version_fields [simp]:
  "six (store_version e h s) = six s"
  "PythonHome (store_version e h s) = PythonHome s"
  "PythonPath (store_version e h s) = PythonPath s"
  by (simp_all add: store_version_def Let_def split: option.split)

lemma store_version_PythonVersion:
  "PythonVersion (store_version e h s) =
     (case get_py_version e h of
        None \<Rightarrow> PythonVersion s
      | Some res \<Rightarrow> filter (\<lambda>c. c \<noteq> CHR 0x0A) res)"
  by (simp add: store_version_def Let_def strings_Replace_all_single split: option.split)

lemma store_version_trace:
  "trace (store_version e h s) =
     trace s @
     (case get_py_version e h of
        None \<Rightarrow> []
      | Some res \<Rightarrow>
          [CacheSet (BuildAgentKey e [''pythonVersion'']) (filter (\<lambda>c. c \<noteq> CHR 0x0A) res)])"
  by (simp add: store_version_def Let_def strings_Replace_all_single split: option.split)

lemma sendTelemetry_fields [simp]:
  "six (sendTelemetry e v s) = six s"
  "PythonVersion (sendTelemetry e v s) = PythonVersion s"
  "PythonHome (sendTelemetry e v s) = PythonHome s"
  "PythonPath (sendTelemetry e v s) = PythonPath s"
  by (simp_all add: sendTelemetry_def Let_def)

lemma sendTelemetry_trace:
  "trace (sendTelemetry e v s) =
     trace s @
     [AddRecurrentSeries
        \<lparr>Name = ''datadog.agent.python.version'', Points = [\<lparr>Value = 1\<rparr>],
         Tags = (''python_version:'' @ show_int v) #
                (case version_New e of
                   None \<Rightarrow> []
                 | Some (major, minor, patch) \<Rightarrow>
                     [''agent_version_major:'' @ show_int major,
                      ''agent_version_minor:'' @ show_int minor,
                      ''agent_version_patch:'' @ show_int patch]),
         MType = APIGaugeType\<rparr>]"
  by (simp add: sendTelemetry_def Let_def split: option.split)

lemma register_modules_fields [simp]:
  "six (register_modules h s) = six s"
  "PythonVersion (register_modules h s) = PythonVersion s"
  "PythonHome (register_modules h s) = PythonHome s"
  "PythonPath (register_modules h s) = PythonPath s"
  by (simp_all add: register_modules_def Let_def)

lemma register_modules_trace:
  "trace (register_modules h s) =
     trace s @
     [InitCgoFree h, InitDatadogAgentModule h, InitAggregatorModule h, InitUtilModule h,
      InitTaggerModule h, InitContainerFilter, InitContainersModule h, InitkubeutilModule h]"
  by (simp add: register_modules_def Let_def)

lemma Initialize_created_fst:
  "six s = Some h \<Longrightarrow>
   fst (Initialize_created e v paths s) =
     (if is_initialized e h = 0 then Some (get_error e h) else None)"
  by (simp add: Initialize_created_def Let_def)

lemma Initialize_created_six:
  "six s = Some h \<Longrightarrow> six (snd (Initialize_created e v paths s)) = Some h"
  by (simp add: Initialize_created_def Let_def)

lemma Initialize_created_PythonHome:
  "six s = Some h \<Longrightarrow>
   PythonHome (snd (Initialize_created e v paths s)) = PythonHome (override_home e s)"
  by (simp add: Initialize_created_def Let_def)

lemma Initialize_created_PythonVersion:
  "six s = Some h \<Longrightarrow>
   PythonVersion (snd (Initialize_created e v paths s)) =
     (if is_initialized e h = 0 then PythonVersion s
      else case get_py_version e h of
             None \<Rightarrow> PythonVersion s
           | Some res \<Rightarrow> filter (\<lambda>c. c \<noteq> CHR 0x0A) res)"
  by (simp add: Initialize_created_def Let_def store_version_PythonVersion split: option.split)

lemma Initialize_created_trace:
  "six s = Some h \<Longrightarrow>
   trace (snd (Initialize_created e v paths s)) =
     trace (override_home e s) @ map (AddPythonPath h) paths @ Init h #
     (if is_initialized e h = 0 then []
      else trace (register_modules h (sendTelemetry e v (store_version e h init_state))))"
  by (simp add: Initialize_created_def Let_def store_version_trace sendTelemetry_trace
      register_modules_trace init_state_def)

lemma Initialize_unfold:
  "creates e h \<Longrightarrow>
   Initialize e paths s =
     Initialize_created e (python_version e) paths
       (s\<lparr>trace := trace s @ [if python_version e = 2 then Make2 (pythonHome2 e)
                              else Make3 (pythonHome3 e)],
          six := Some h, PythonHome := compiled_home e\<rparr>)"
  by (auto simp: creates_def Initialize_def compiled_home_def emit_def)

lemma Initialize_fst:
  "creates e h \<Longrightarrow>
   fst (Initialize e paths s) = (if is_initialized e h = 0 then Some (get_error e h) else None)"
  by (simp add: Initialize_unfold Initialize_created_fst)

lemma Initialize_six:
  "creates e h \<Longrightarrow> six (snd (Initialize e paths s)) = Some h"
  by (simp add: Initialize_unfold Initialize_created_six)

lemma Initialize_PythonHome:
  "creates e h \<Longrightarrow>
   PythonHome (snd (Initialize e paths s)) =
     (if GOOS e = ''windows'' \<and>
         os_IsNotExist (os_Stat e (filepath_Join e [compiled_home e, ''lib'', ''python2.7'']))
      then executable_Folder e else compiled_home e)"
  by (simp add: Initialize_unfold Initialize_created_PythonHome override_home_PythonHome)

lemma Initialize_PythonVersion:
  "creates e h \<Longrightarrow>
   PythonVersion (snd (Initialize e paths s)) =
     (if is_initialized e h = 0 then PythonVersion s
      else case get_py_version e h of
             None \<Rightarrow> PythonVersion s
           | Some res \<Rightarrow> filter (\<lambda>c. c \<noteq> CHR 0x0A) res)"
  by (simp add: Initialize_unfold Initialize_created_PythonVersion split: option.split)

lemma Initialize_new_events:
  "creates e h \<Longrightarrow>
   new_events s (snd (Initialize e paths s)) =
     (if python_version e = 2 then Make2 (pythonHome2 e) else Make3 (pythonHome3 e)) #
     (if GOOS e = ''windows''
      then [Stat (filepath_Join e [compiled_home e, ''lib'', ''python2.7''])] else []) @
     map (AddPythonPath h) paths @ Init h #
     (if is_initialized e h = 0 then []
      else trace (register_modules h
                    (sendTelemetry e (python_version e) (store_version e h init_state))))"
  by (simp add: Initialize_unfold Initialize_created_trace override_home_trace new_events_def)

lemma Initialize_no_handle:
  "python_version e = 2 \<and> make2 e (pythonHome2 e) = None \<or>
   python_version e = 3 \<and> make3 e (pythonHome3 e) = None \<Longrightarrow>
   Initialize e paths s =
     (Some (''could not init six lib for python version '' @ show_int (python_version e)),
      s\<lparr>six := None, PythonHome := compiled_home e,
        trace := trace s @ [if python_version e = 2 then Make2 (pythonHome2 e)
                            else Make3 (pythonHome3 e)]\<rparr>)"
  by (auto simp: Initialize_def Initialize_created_def compiled_home_def emit_def)

lemma Initialize_unknown:
  "python_version e \<noteq> 2 \<Longrightarrow> python_version e \<noteq> 3 \<Longrightarrow>
   Initialize e paths s =
     (Some (''unknown requested version of python: '' @ show_int (python_version e)), s)"
  by (simp add: Initialize_def)

lemma trace_done_init_state:
  "trace (register_modules h (sendTelemetry e v (store_version e h init_state))) =
     (case get_py_version e h of
        None \<Rightarrow> []
      | Some res \<Rightarrow>
          [CacheSet (BuildAgentKey e [''pythonVersion'']) (filter (\<lambda>c. c \<noteq> CHR 0x0A) res)]) @
     AddRecurrentSeries
        \<lparr>Name = ''datadog.agent.python.version'', Points = [\<lparr>Value = 1\<rparr>],
         Tags = (''python_version:'' @ show_int v) #
                (case version_New e of
                   None \<Rightarrow> []
                 | Some (major, minor, patch) \<Rightarrow>
                     [''agent_version_major:'' @ show_int major,
                      ''agent_version_minor:'' @ show_int minor,
                      ''agent_version_patch:'' @ show_int patch]),
         MType = APIGaugeType\<rparr> #
     [InitCgoFree h, InitDatadogAgentModule h, InitAggregatorModule h, InitUtilModule h,
      InitTaggerModule h, InitContainerFilter, InitContainersModule h, InitkubeutilModule h]"
  by (simp add: register_modules_trace sendTelemetry_trace store_version_trace init_state_def)

lemma creates_cases:
  "(\<exists>h. creates e h) \<or>
   (python_version e = 2 \<and> make2 e (pythonHome2 e) = None \<or>
    python_version e = 3 \<and> make3 e (pythonHome3 e) = None) \<or>
   (python_version e \<noteq> 2 \<and> python_version e \<noteq> 3)"
  by (auto simp: creates_def)

lemma show_int_2_3: "show_int 2 = ''2''" "show_int 3 = ''3''" "show_int 5 = ''5''"
  by (simp_all add: show_int_def show_nat.simps digit_char_def)

lemma os_IsNotExist_iff: "os_IsNotExist r \<longleftrightarrow> r = Some ErrNotExist"
  by (cases r rule: os_IsNotExist.cases) simp_all

lemma filter_AddPythonPath:
  "(\<And>p. \<not> P (AddPythonPath h p)) \<Longrightarrow> filter P (map (AddPythonPath h) ps) = []"
  by (induction ps) simp_all

lemma new_events_self [simp]: "new_events s s = []"
  by (simp add: new_events_def)

lemma new_events_append [simp]: "new_events s (s\<lparr>trace := trace s @ evs\<rparr>) = evs"
  by (simp add: new_events_def)

lemma join_slash_marker:
  "join_slash [''/opt/py2'', ''lib'', ''python2.7''] = ''/opt/py2/lib/python2.7''"
  "join_slash [''/opt/py3'', ''lib'', ''python2.7''] = ''/opt/py3/lib/python2.7''"
  "join_slash [''agent'', ''pythonVersion''] = ''agent/pythonVersion''"
  by (simp_all add: join_slash_def)

lemma creates_demo:
  "creates demo_env 1" "creates win_env 1" "creates win3_env 1" "creates win_denied_env 1"
  "creates boot_fail_env 1"
  by (simp_all add: creates_def demo_env_def win_env_def win3_env_def win_denied_env_def
      boot_fail_env_def)

lemma demo_run:
  "Initialize demo_env [] init_state =
     (None,
      \<lparr>six = Some 1, PythonVersion = ''3.8.10'', PythonHome = ''/opt/py3'', PythonPath = [],
       trace =
         [Make3 ''/opt/py3'', Init 1, CacheSet ''agent/pythonVersion'' ''3.8.10'',
          AddRecurrentSeries
            \<lparr>Name = ''datadog.agent.python.version'', Points = [\<lparr>Value = 1\<rparr>],
             Tags = [''python_version:3''], MType = APIGaugeType\<rparr>,
          InitCgoFree 1, InitDatadogAgentModule 1, InitAggregatorModule 1, InitUtilModule 1,
          InitTaggerModule 1, InitContainerFilter, InitContainersModule 1,
          InitkubeutilModule 1]\<rparr>)"
  by (simp add: Initialize_def Initialize_created_def override_home_def store_version_def
      sendTelemetry_def register_modules_def emit_def Let_def demo_env_def init_state_def
      strings_Replace_all_def show_int_2_3 join_slash_marker)

lemma win_run:
  "Initialize win_env [] init_state =
     (None,
      \<lparr>six = Some 1, PythonVersion = ''3.8.10'', PythonHome = ''/agent/bin'', PythonPath = [],
       trace =
         [Make2 ''/opt/py2'', Stat ''/opt/py2/lib/python2.7'', Init 1,
          CacheSet ''agent/pythonVersion'' ''3.8.10'',
          AddRecurrentSeries
            \<lparr>Name = ''datadog.agent.python.version'', Points = [\<lparr>Value = 1\<rparr>],
             Tags = [''python_version:2''], MType = APIGaugeType\<rparr>,
          InitCgoFree 1, InitDatadogAgentModule 1, InitAggregatorModule 1, InitUtilModule 1,
          InitTaggerModule 1, InitContainerFilter, InitContainersModule 1,
          InitkubeutilModule 1]\<rparr>)"
  by (simp add: Initialize_def Initialize_created_def override_home_def store_version_def
      sendTelemetry_def register_modules_def emit_def Let_def demo_env_def win_env_def
      init_state_def strings_Replace_all_def show_int_2_3 join_slash_marker)

lemma win_denied_run:
  "Initialize win_denied_env [] init_state =
     (None,
      \<lparr>six = Some 1, PythonVersion = ''3.8.10'', PythonHome = ''/opt/py2'', PythonPath = [],
       trace =
         [Make2 ''/opt/py2'', Stat ''/opt/py2/lib/python2.7'', Init 1,
          CacheSet ''agent/pythonVersion'' ''3.8.10'',
          AddRecurrentSeries
            \<lparr>Name = ''datadog.agent.python.version'', Points = [\<lparr>Value = 1\<rparr>],
             Tags = [''python_version:2''], MType = APIGaugeType\<rparr>,
          InitCgoFree 1, InitDatadogAgentModule 1, InitAggregatorModule 1, InitUtilModule 1,
          InitTaggerModule 1, InitContainerFilter, InitContainersModule 1,
          InitkubeutilModule 1]\<rparr>)"
  by (simp add: Initialize_def Initialize_created_def override_home_def store_version_def
      sendTelemetry_def register_modules_def emit_def Let_def demo_env_def win_env_def
      win_denied_env_def init_state_def strings_Replace_all_def show_int_2_3 join_slash_marker)

lemma win3_run:
  "Initialize win3_env [] init_state =
     (None,
      \<lparr>six = Some 1, PythonVersion = ''3.8.10'', PythonHome = ''/agent/bin'', PythonPath = [],
       trace =
         [Make3 ''/opt/py3'', Stat ''/opt/py3/lib/python2.7'', Init 1,
          CacheSet ''agent/pythonVersion'' ''3.8.10'',
          AddRecurrentSeries
            \<lparr>Name = ''datadog.agent.python.version'', Points = [\<lparr>Value = 1\<rparr>],
             Tags = [''python_version:3''], MType = APIGaugeType\<rparr>,
          InitCgoFree 1, InitDatadogAgentModule 1, InitAggregatorModule 1, InitUtilModule 1,
          InitTaggerModule 1, InitContainerFilter, InitContainersModule 1,
          InitkubeutilModule 1]\<rparr>)"
  by (simp add: Initialize_def Initialize_created_def override_home_def store_version_def
      sendTelemetry_def register_modules_def emit_def Let_def demo_env_def win3_env_def
      init_state_def strings_Replace_all_def show_int_2_3 join_slash_marker)

lemma init_state_trace: "trace init_state = []"
  by (simp add: init_state_def)

subsection \<open>Destroy\<close>

text \<open>
  Claim C1 (two calls of Destroy in a row: the second has no effect and releases
  nothing).  The code does otherwise: \<^verbatim>\<open>Destroy\<close> guards on \<^verbatim>\<open>six != nil\<close> but
  never resets \<^verbatim>\<open>six\<close>, so after a successful \<^verbatim>\<open>Initialize\<close> the second call
  passes the already destroyed pointer to \<^verbatim>\<open>C.destroy\<close> again, and the state after
  two calls differs from the state after one.
\<close>
theorem Destroy_twice_releases_twice:
  "GetSix (snd (Initialize demo_env [] init_state)) = Some 1 \<and>
   new_events (snd (Initialize demo_env [] init_state))
     (Destroy (snd (Initialize demo_env [] init_state))) = [DestroyCall 1] \<and>
   new_events (Destroy (snd (Initialize demo_env [] init_state)))
     (Destroy (Destroy (snd (Initialize demo_env [] init_state)))) = [DestroyCall 1] \<and>
   Destroy (Destroy (snd (Initialize demo_env [] init_state))) \<noteq>
     Destroy (snd (Initialize demo_env [] init_state))"
  by (simp add: demo_run GetSix_def Destroy_def emit_def new_events_def)

text \<open>
  Claim C9: \<^verbatim>\<open>Destroy\<close> never changes the handle variable, so \<^verbatim>\<open>GetSix\<close>
  returns after it what it returned before; after an \<^verbatim>\<open>Initialize\<close> that returned
  nil followed by \<^verbatim>\<open>Destroy\<close>, \<^verbatim>\<open>GetSix\<close> still returns the same non-nil pointer.
\<close>
theorem Destroy_keeps_handle:
  "GetSix (Destroy s) = GetSix s \<and>
   (fst (Initialize e paths s0) = None \<longrightarrow>
      (\<exists>h. GetSix (snd (Initialize e paths s0)) = Some h \<and>
           GetSix (Destroy (snd (Initialize e paths s0))) = Some h))"
proof
  show keep: "GetSix (Destroy s) = GetSix s" for s
    by (simp add: GetSix_def Destroy_def split: option.split)
  show "fst (Initialize e paths s0) = None \<longrightarrow>
      (\<exists>h. GetSix (snd (Initialize e paths s0)) = Some h \<and>
           GetSix (Destroy (snd (Initialize e paths s0))) = Some h)"
  proof
    assume ok: "fst (Initialize e paths s0) = None"
    from creates_cases [of e] obtain h where "creates e h"
      using ok by (auto simp: Initialize_no_handle Initialize_unknown)
    then have "GetSix (snd (Initialize e paths s0)) = Some h"
      by (simp add: GetSix_def Initialize_six)
    then show "\<exists>h. GetSix (snd (Initialize e paths s0)) = Some h \<and>
           GetSix (Destroy (snd (Initialize e paths s0))) = Some h"
      by (simp add: keep)
  qed
qed

theorem Destroy_keeps_handle_witness:
  "fst (Initialize demo_env [] init_state) = None \<and>
   GetSix (snd (Initialize demo_env [] init_state)) = Some 1 \<and>
   GetSix (Destroy (snd (Initialize demo_env [] init_state))) = Some 1"
  using Destroy_keeps_handle [of "snd (Initialize demo_env [] init_state)" demo_env "[]" init_state]
  by (simp add: demo_run GetSix_def)

subsection \<open>Version selection\<close>

text \<open>
  Claim C2: for a configured version other than 2 and 3, \<^verbatim>\<open>Initialize\<close> returns the
  error that carries the value and leaves every package variable and the log as they
  were (no constructor is called), so from the initial state \<^verbatim>\<open>GetSix\<close> returns
  nil; for 2 and for 3 the one constructor called is that of the configured version,
  with that version's link-time home, and the handle variable holds its answer.
\<close>
theorem Initialize_version_selection:
  "(python_version e \<noteq> 2 \<and> python_version e \<noteq> 3 \<longrightarrow>
      Initialize e paths s =
        (Some (''unknown requested version of python: '' @ show_int (python_version e)), s) \<and>
      GetSix (snd (Initialize e paths init_state)) = None) \<and>
   (python_version e = 2 \<longrightarrow>
      filter is_make (new_events s (snd (Initialize e paths s))) = [Make2 (pythonHome2 e)] \<and>
      GetSix (snd (Initialize e paths s)) = make2 e (pythonHome2 e)) \<and>
   (python_version e = 3 \<longrightarrow>
      filter is_make (new_events s (snd (Initialize e paths s))) = [Make3 (pythonHome3 e)] \<and>
      GetSix (snd (Initialize e paths s)) = make3 e (pythonHome3 e))"
proof -
  have unknown: "Initialize e paths s =
        (Some (''unknown requested version of python: '' @ show_int (python_version e)), s) \<and>
      GetSix (snd (Initialize e paths init_state)) = None"
    if "python_version e \<noteq> 2" "python_version e \<noteq> 3"
    using that by (simp add: Initialize_unknown GetSix_def init_state_def)
  have made: "filter is_make (new_events s (snd (Initialize e paths s))) =
        [if python_version e = 2 then Make2 (pythonHome2 e) else Make3 (pythonHome3 e)] \<and>
      GetSix (snd (Initialize e paths s)) =
        (if python_version e = 2 then make2 e (pythonHome2 e) else make3 e (pythonHome3 e))"
    if v: "python_version e = 2 \<or> python_version e = 3"
  proof (cases "\<exists>h. creates e h")
    case True
    then obtain h where h: "creates e h" ..
    have "filter is_make (trace (register_modules h
            (sendTelemetry e (python_version e) (store_version e h init_state)))) = []"
      by (simp add: trace_done_init_state split: option.split)
    with h show ?thesis
      by (auto simp: Initialize_new_events Initialize_six GetSix_def filter_AddPythonPath
          creates_def)
  next
    case False
    with v have "python_version e = 2 \<and> make2 e (pythonHome2 e) = None \<or>
      python_version e = 3 \<and> make3 e (pythonHome3 e) = None"
      by (auto simp: creates_def)
    then show ?thesis
      by (auto simp: Initialize_no_handle GetSix_def new_events_def)
  qed
  from unknown made show ?thesis by simp
qed

theorem Initialize_version_selection_witness:
  "Initialize (demo_env\<lparr>python_version := 5\<rparr>) [] init_state =
     (Some ''unknown requested version of python: 5'', init_state) \<and>
   GetSix (snd (Initialize (demo_env\<lparr>python_version := 5\<rparr>) [] init_state)) = None \<and>
   filter is_make (new_events init_state (snd (Initialize win_env [] init_state))) =
     [Make2 ''/opt/py2''] \<and>
   filter is_make (new_events init_state (snd (Initialize demo_env [] init_state))) =
     [Make3 ''/opt/py3'']"
  using Initialize_version_selection [of "demo_env\<lparr>python_version := 5\<rparr>" "[]" init_state]
    Initialize_version_selection [of win_env "[]" init_state]
    Initialize_version_selection [of demo_env "[]" init_state]
  by (simp add: demo_env_def win_env_def show_int_2_3 GetSix_def init_state_def)

subsection \<open>Boot failure\<close>

text \<open>
  Claim C3: when a handle was created and \<^verbatim>\<open>is_initialized\<close> answers zero,
  \<^verbatim>\<open>Initialize\<close> returns an error whose message is the runtime's error string, and
  the run registers no callbacks, submits no series, sets no cache entry, and leaves
  \<open>PythonVersion\<close> as it was.
\<close>
theorem boot_failure_reports_runtime_error:
  assumes "creates e h" and "is_initialized e h = 0"
  shows "fst (Initialize e paths s) = Some (get_error e h) \<and>
         filter (\<lambda>ev. registered_handle ev \<noteq> None)
           (new_events s (snd (Initialize e paths s))) = [] \<and>
         filter is_series (new_events s (snd (Initialize e paths s))) = [] \<and>
         filter is_cache_set (new_events s (snd (Initialize e paths s))) = [] \<and>
         PythonVersion (snd (Initialize e paths s)) = PythonVersion s"
  using assms
  by (simp add: Initialize_fst Initialize_new_events Initialize_PythonVersion
      filter_AddPythonPath)

theorem boot_failure_reports_runtime_error_witness:
  "creates boot_fail_env 1 \<and> is_initialized boot_fail_env 1 = 0 \<and>
   fst (Initialize boot_fail_env [''/etc/checks.d''] init_state) = Some ''boot failed'' \<and>
   filter (\<lambda>ev. registered_handle ev \<noteq> None)
     (new_events init_state (snd (Initialize boot_fail_env [''/etc/checks.d''] init_state))) = [] \<and>
   filter is_series
     (new_events init_state (snd (Initialize boot_fail_env [''/etc/checks.d''] init_state))) = [] \<and>
   PythonVersion (snd (Initialize boot_fail_env [''/etc/checks.d''] init_state)) = []"
  using boot_failure_reports_runtime_error [of boot_fail_env 1 "[''/etc/checks.d'']" init_state]
    creates_demo(5)
  by (simp add: boot_fail_env_def demo_env_def init_state_def)

subsection \<open>The cached version string\<close>

text \<open>
  Claim C5: after a successful boot in which the runtime returns the version string
  \<open>raw\<close>, both the package variable \<open>PythonVersion\<close> and the one cache entry the run
  sets hold \<open>raw\<close> without its newline characters, wherever in \<open>raw\<close> they stand.
\<close>
theorem cached_version_without_newlines:
  assumes "creates e h" and "is_initialized e h \<noteq> 0" and "get_py_version e h = Some raw"
  shows "PythonVersion (snd (Initialize e paths s)) = filter (\<lambda>c. c \<noteq> CHR 0x0A) raw \<and>
         filter is_cache_set (new_events s (snd (Initialize e paths s))) =
           [CacheSet (BuildAgentKey e [''pythonVersion'']) (filter (\<lambda>c. c \<noteq> CHR 0x0A) raw)]"
  using assms
  by (simp add: Initialize_new_events Initialize_PythonVersion trace_done_init_state
      filter_AddPythonPath)

theorem cached_version_without_newlines_witness:
  "creates demo_env 1 \<and> is_initialized demo_env 1 \<noteq> 0 \<and>
   get_py_version demo_env 1 = Some (''3.8.10'' @ [CHR 0x0A]) \<and>
   PythonVersion (snd (Initialize demo_env [] init_state)) = ''3.8.10'' \<and>
   filter is_cache_set (new_events init_state (snd (Initialize demo_env [] init_state))) =
     [CacheSet ''agent/pythonVersion'' ''3.8.10'']"
  using cached_version_without_newlines [of demo_env 1 "''3.8.10'' @ [CHR 0x0A]" "[]" init_state]
    creates_demo(1)
  by (simp add: demo_env_def join_slash_marker)

subsection \<open>Telemetry\<close>

text \<open>
  Claim C7: a successful boot submits exactly one series, a gauge with the single point
  1.0, whose first tag is \<^verbatim>\<open>python_version:2\<close> or \<^verbatim>\<open>python_version:3\<close>; the three
  agent version tags follow when \<^verbatim>\<open>version.New\<close> succeeds and are left out when it
  fails, and \<^verbatim>\<open>Initialize\<close> returns nil either way.
\<close>
theorem telemetry_sent_once:
  assumes "creates e h" and "is_initialized e h \<noteq> 0"
  shows "fst (Initialize e paths s) = None \<and>
         filter is_series (new_events s (snd (Initialize e paths s))) =
           [AddRecurrentSeries
              \<lparr>Name = ''datadog.agent.python.version'', Points = [\<lparr>Value = 1\<rparr>],
               Tags = (if python_version e = 2 then ''python_version:2'' else ''python_version:3'') #
                      (case version_New e of
                         None \<Rightarrow> []
                       | Some (major, minor, patch) \<Rightarrow>
                           [''agent_version_major:'' @ show_int major,
                            ''agent_version_minor:'' @ show_int minor,
                            ''agent_version_patch:'' @ show_int patch]),
               MType = APIGaugeType\<rparr>]"
proof -
  from assms(1) have "python_version e = 2 \<or> python_version e = 3"
    by (auto simp: creates_def)
  then have tag: "''python_version:'' @ show_int (python_version e) =
      (if python_version e = 2 then ''python_version:2'' else ''python_version:3'')"
    by (auto simp: show_int_2_3)
  from assms show ?thesis
    by (simp add: Initialize_fst Initialize_new_events trace_done_init_state
        filter_AddPythonPath tag del: append.simps split: option.split)
qed

theorem telemetry_sent_once_witness:
  "creates demo_env 1 \<and> is_initialized demo_env 1 \<noteq> 0 \<and> version_New demo_env = None \<and>
   fst (Initialize demo_env [''/etc/checks.d'', ''/opt/checks.d''] init_state) = None \<and>
   filter is_series
     (new_events init_state
        (snd (Initialize demo_env [''/etc/checks.d'', ''/opt/checks.d''] init_state))) =
     [AddRecurrentSeries
        \<lparr>Name = ''datadog.agent.python.version'', Points = [\<lparr>Value = 1\<rparr>],
         Tags = [''python_version:3''], MType = APIGaugeType\<rparr>]"
  using telemetry_sent_once [of demo_env 1 "[''/etc/checks.d'', ''/opt/checks.d'']" init_state]
    creates_demo(1)
  by (simp add: demo_env_def)

subsection \<open>The home path\<close>

text \<open>
  Claim C4 (the home path is resolved, override included, before the handle is created,
  so the handle is created with the published home path).  The code does otherwise: the
  constructor is called on line 173 or 176 with the link-time path, and the override
  of lines 186-192 changes only the published variable afterwards.  On a Windows host
  whose marker directory does not exist the only constructor call carries the link-time
  path, and \<open>PythonHome\<close> ends as the directory of the executable.
\<close>
theorem handle_created_before_home_override:
  "fst (Initialize win_env [] init_state) = None \<and>
   filter is_make (trace (snd (Initialize win_env [] init_state))) = [Make2 ''/opt/py2''] \<and>
   take 2 (trace (snd (Initialize win_env [] init_state))) =
     [Make2 ''/opt/py2'', Stat ''/opt/py2/lib/python2.7''] \<and>
   PythonHome (snd (Initialize win_env [] init_state)) = ''/agent/bin''"
  by (simp add: win_run)

text \<open>
  Claim C6 as stated (any failure of the \<^verbatim>\<open>os.Stat\<close> probe triggers the override)
  fails: the code tests \<^verbatim>\<open>os.IsNotExist(err)\<close>, so with a permission error the
  published home path stays the link-time one.
\<close>
theorem permission_error_keeps_compiled_home:
  "GOOS win_denied_env = ''windows'' \<and>
   os_Stat win_denied_env
     (filepath_Join win_denied_env [pythonHome2 win_denied_env, ''lib'', ''python2.7'']) =
     Some ErrPermission \<and>
   fst (Initialize win_denied_env [] init_state) = None \<and>
   PythonHome (snd (Initialize win_denied_env [] init_state)) = pythonHome2 win_denied_env \<and>
   PythonHome (snd (Initialize win_denied_env [] init_state)) \<noteq>
     executable_Folder win_denied_env"
  by (simp add: win_denied_run) (simp add: win_denied_env_def win_env_def demo_env_def)

text \<open>
  Claim C6, amended: on Windows the published home path becomes the directory of the
  executable exactly when the probe of the marker directory fails with a "does not exist"
  error; when the probe succeeds or fails with any other error it stays the link-time
  path.  No outcome of the probe is fatal: the boot call is made and the result of
  \<^verbatim>\<open>Initialize\<close> depends on the boot alone.
\<close>
theorem home_override_only_when_marker_missing:
  assumes "GOOS e = ''windows''" and "creates e h"
  shows "PythonHome (snd (Initialize e paths s)) =
           (if os_Stat e (filepath_Join e [compiled_home e, ''lib'', ''python2.7'']) =
               Some ErrNotExist
            then executable_Folder e else compiled_home e) \<and>
         Init h \<in> set (new_events s (snd (Initialize e paths s))) \<and>
         fst (Initialize e paths s) =
           (if is_initialized e h = 0 then Some (get_error e h) else None)"
  using assms
  by (simp add: Initialize_PythonHome Initialize_new_events Initialize_fst os_IsNotExist_iff)

theorem home_override_only_when_marker_missing_witness:
  "GOOS win_env = ''windows'' \<and> creates win_env 1 \<and>
   os_Stat win_env ''/opt/py2/lib/python2.7'' = Some ErrNotExist \<and>
   PythonHome (snd (Initialize win_env [] init_state)) = ''/agent/bin'' \<and>
   Init 1 \<in> set (new_events init_state (snd (Initialize win_env [] init_state))) \<and>
   fst (Initialize win_env [] init_state) = None"
  using home_override_only_when_marker_missing [of win_env 1 "[]" init_state] creates_demo(2)
  by (simp add: win_env_def demo_env_def compiled_home_def join_slash_marker)

text \<open>
  Claim C10: on Windows the one path probed is
  \<^verbatim>\<open>filepath.Join(home, "lib", "python2.7")\<close> for the link-time home of the selected
  version, whichever version that is; so a version 3 boot whose home has no
  \<^verbatim>\<open>lib/python2.7\<close> publishes the directory of the executable as its home path.
\<close>
theorem marker_is_python27_for_every_version:
  assumes "GOOS e = ''windows''" and "creates e h"
  shows "filter is_stat (new_events s (snd (Initialize e paths s))) =
           [Stat (filepath_Join e [compiled_home e, ''lib'', ''python2.7''])] \<and>
         (python_version e = 3 \<and>
          os_Stat e (filepath_Join e [pythonHome3 e, ''lib'', ''python2.7'']) = Some ErrNotExist \<longrightarrow>
            filter is_stat (new_events s (snd (Initialize e paths s))) =
              [Stat (filepath_Join e [pythonHome3 e, ''lib'', ''python2.7''])] \<and>
            PythonHome (snd (Initialize e paths s)) = executable_Folder e)"
proof -
  have "filter is_stat (trace (register_modules h
          (sendTelemetry e v (store_version e h init_state)))) = []" for v
    by (simp add: trace_done_init_state split: option.split)
  with assms show ?thesis
    by (simp add: Initialize_PythonHome Initialize_new_events os_IsNotExist_iff
        filter_AddPythonPath compiled_home_def)
qed

theorem marker_is_python27_for_every_version_witness:
  "GOOS win3_env = ''windows'' \<and> creates win3_env 1 \<and> python_version win3_env = 3 \<and>
   os_Stat win3_env ''/opt/py3/lib/python3.8'' = None \<and>
   os_Stat win3_env ''/opt/py3/lib/python2.7'' = Some ErrNotExist \<and>
   filter is_stat (new_events init_state (snd (Initialize win3_env [] init_state))) =
     [Stat ''/opt/py3/lib/python2.7''] \<and>
   PythonHome (snd (Initialize win3_env [] init_state)) = ''/agent/bin''"
  using marker_is_python27_for_every_version [of win3_env 1 init_state "[]"] creates_demo(3)
  by (simp add: win3_env_def demo_env_def compiled_home_def join_slash_marker)

subsection \<open>Order of the registrations\<close>

lemma preceded_append:
  "preceded Q P (xs @ ys) \<longleftrightarrow> preceded Q P xs \<and> ((\<exists>x\<in>set xs. Q x) \<or> preceded Q P ys)"
  by (induction xs) auto

lemma preceded_AddPythonPath:
  "(\<And>p. \<not> P (AddPythonPath h p)) \<Longrightarrow> preceded Q P (map (AddPythonPath h) ps)"
  by (induction ps) simp_all

lemma preceded_split:
  "preceded Q P evs \<Longrightarrow> evs = pre @ x # post \<Longrightarrow> P x \<Longrightarrow> \<exists>q\<in>set pre. Q q"
  by (induction pre arbitrary: evs) auto

lemma Initialize_filter_preceded:
  "preceded (\<lambda>q. q = InitContainerFilter) (\<lambda>x. x = InitContainersModule h')
     (new_events s (snd (Initialize e paths s)))"
proof -
  let ?Q = "\<lambda>q. q = InitContainerFilter" and ?P = "\<lambda>x. x = InitContainersModule h'"
  consider h where "creates e h"
    | "python_version e = 2 \<and> make2 e (pythonHome2 e) = None \<or>
       python_version e = 3 \<and> make3 e (pythonHome3 e) = None"
    | "python_version e \<noteq> 2 \<and> python_version e \<noteq> 3"
    using creates_cases [of e] by blast
  then show ?thesis
  proof cases
    case 1
    have "preceded ?Q ?P (trace (register_modules h
            (sendTelemetry e (python_version e) (store_version e h init_state))))"
      by (simp add: trace_done_init_state split: option.split)
    with 1 show ?thesis
      by (simp add: Initialize_new_events preceded_append preceded_AddPythonPath)
  next
    case 2
    then show ?thesis by (auto simp: Initialize_no_handle new_events_def)
  next
    case 3
    then show ?thesis by (simp add: Initialize_unknown)
  qed
qed

lemma Initialize_boot_preceded:
  "preceded (\<lambda>q. q = Init h' \<and> is_initialized e h' \<noteq> 0) (\<lambda>x. registered_handle x = Some h')
     (new_events s (snd (Initialize e paths s)))"
proof -
  let ?Q = "\<lambda>q. q = Init h' \<and> is_initialized e h' \<noteq> 0"
  let ?P = "\<lambda>x. registered_handle x = Some h'"
  consider h where "creates e h"
    | "python_version e = 2 \<and> make2 e (pythonHome2 e) = None \<or>
       python_version e = 3 \<and> make3 e (pythonHome3 e) = None"
    | "python_version e \<noteq> 2 \<and> python_version e \<noteq> 3"
    using creates_cases [of e] by blast
  then show ?thesis
  proof cases
    case 1
    have "h' = h \<or> preceded ?Q ?P (trace (register_modules h
            (sendTelemetry e (python_version e) (store_version e h init_state))))"
      by (auto simp: trace_done_init_state split: option.split)
    with 1 show ?thesis
      by (auto simp: Initialize_new_events preceded_append preceded_AddPythonPath)
  next
    case 2
    then show ?thesis by (auto simp: Initialize_no_handle new_events_def)
  next
    case 3
    then show ?thesis by (simp add: Initialize_unknown)
  qed
qed

text \<open>
  Claim C8: in every run of \<^verbatim>\<open>Initialize\<close>, a call that registers the containers
  module has the call of \<^verbatim>\<open>initContainerFilter\<close> before it in the same run, and
  every call that registers callbacks into a handle has the boot call of that handle
  before it, the boot having succeeded.
\<close>
theorem registration_order:
  assumes "new_events s (snd (Initialize e paths s)) = pre @ x # post"
  shows "(x = InitContainersModule h \<longrightarrow> InitContainerFilter \<in> set pre) \<and>
         (registered_handle x = Some h \<longrightarrow> Init h \<in> set pre \<and> is_initialized e h \<noteq> 0)"
  using preceded_split [OF Initialize_filter_preceded assms, of h]
    preceded_split [OF Initialize_boot_preceded assms, of h]
  by auto

theorem registration_order_witness:
  "new_events init_state (snd (Initialize demo_env [] init_state)) =
     [Make3 ''/opt/py3'', Init 1, CacheSet ''agent/pythonVersion'' ''3.8.10'',
      AddRecurrentSeries
        \<lparr>Name = ''datadog.agent.python.version'', Points = [\<lparr>Value = 1\<rparr>],
         Tags = [''python_version:3''], MType = APIGaugeType\<rparr>,
      InitCgoFree 1, InitDatadogAgentModule 1, InitAggregatorModule 1, InitUtilModule 1,
      InitTaggerModule 1, InitContainerFilter] @ InitContainersModule 1 # [InitkubeutilModule 1] \<and>
   registered_handle (InitContainersModule 1) = Some 1 \<and>
   InitContainerFilter \<in> set
     [Make3 ''/opt/py3'', Init 1, CacheSet ''agent/pythonVersion'' ''3.8.10'',
      AddRecurrentSeries
        \<lparr>Name = ''datadog.agent.python.version'', Points = [\<lparr>Value = 1\<rparr>],
         Tags = [''python_version:3''], MType = APIGaugeType\<rparr>,
      InitCgoFree 1, InitDatadogAgentModule 1, InitAggregatorModule 1, InitUtilModule 1,
      InitTaggerModule 1, InitContainerFilter] \<and>
   is_initialized demo_env 1 \<noteq> 0"
  using registration_order [of init_state demo_env "[]"
      "[Make3 ''/opt/py3'', Init 1, CacheSet ''agent/pythonVersion'' ''3.8.10'',
        AddRecurrentSeries
          \<lparr>Name = ''datadog.agent.python.version'', Points = [\<lparr>Value = 1\<rparr>],
           Tags = [''python_version:3''], MType = APIGaugeType\<rparr>,
        InitCgoFree 1, InitDatadogAgentModule 1, InitAggregatorModule 1, InitUtilModule 1,
        InitTaggerModule 1, InitContainerFilter]"
      "InitContainersModule 1" "[InitkubeutilModule 1]" 1]
  by (simp add: demo_run new_events_def init_state_trace)

end
